theory Spec2Isabelle
  imports Main
begin

section \<open>JavaScript values\<close>

text \<open>
  The program is the single file \<^verbatim>\<open>src/app.ts\<close>. TypeScript's interfaces are erased at run
  time, so what \<^verbatim>\<open>JSON.parse\<close> returns, what the remote attribution service answers and what
  the sink rejects with are untyped JavaScript values. They are modelled by one datatype.
  The type parameter \<open>'n\<close> stands for JavaScript's numbers (IEEE doubles), of which the
  program only ever needs the string conversion.

  An object is the list of its own enumerable properties in the order of their creation:
  for a value that comes out of \<^verbatim>\<open>JSON.parse\<close>, the order of the members in the text.
  \<open>JNative k\<close> is the member \<open>k\<close> that every plain object inherits from
  \<^verbatim>\<open>Object.prototype\<close>; the program can only meet one as the result of a cache lookup.
\<close>

datatype 'n jsval =
    JUndefined
  | JNull
  | JBool bool
  | JNum 'n
  | JStr string
  | JArr "'n jsval list"
  | JObj "(string \<times> 'n jsval) list"
  | JNative string

datatype type_error =
    NullishRead       \<comment> \<open>a property read of \<^verbatim>\<open>null\<close> or \<^verbatim>\<open>undefined\<close>\<close>
  | InOperand         \<comment> \<open>\<^verbatim>\<open>k in v\<close> where \<^verbatim>\<open>v\<close> is not an object\<close>
  | NullishToObject   \<comment> \<open>\<^verbatim>\<open>Object.keys\<close> of \<^verbatim>\<open>null\<close> or \<^verbatim>\<open>undefined\<close>\<close>
  | NoPrimitive       \<comment> \<open>an object that cannot be converted to a primitive value\<close>

datatype js_error = SyntaxError | TypeError type_error

text \<open>Sequencing of computations that may throw: the first exception wins.\<close>

definition and_then :: "'e + 'a \<Rightarrow> ('a \<Rightarrow> 'e + 'b) \<Rightarrow> 'e + 'b" where
  "and_then r f = (case r of Inl e \<Rightarrow> Inl e | Inr x \<Rightarrow> f x)"

text \<open>\<^verbatim>\<open>Array.prototype.map\<close> with a callback that may throw: elements are visited from left
  to right and the first exception ends the call.\<close>

fun map_result :: "('a \<Rightarrow> 'e + 'b) \<Rightarrow> 'a list \<Rightarrow> 'e + 'b list" where
  "map_result f [] = Inr []"
| "map_result f (x # xs) =
     (case f x of
        Inl e \<Rightarrow> Inl e
      | Inr y \<Rightarrow> (case map_result f xs of Inl e \<Rightarrow> Inl e | Inr ys \<Rightarrow> Inr (y # ys)))"

text \<open>The names every plain object inherits from \<^verbatim>\<open>Object.prototype\<close>.\<close>

definition object_prototype_keys :: "string list" where
  "object_prototype_keys =
     [''constructor'', ''__defineGetter__'', ''__defineSetter__'', ''hasOwnProperty'',
      ''__lookupGetter__'', ''__lookupSetter__'', ''isPrototypeOf'', ''propertyIsEnumerable'',
      ''toString'', ''valueOf'', ''__proto__'', ''toLocaleString'']"

text \<open>Decimal digits of an array index, as \<^verbatim>\<open>Object.keys\<close> names the elements of an array.\<close>

fun string_of_nat :: "nat \<Rightarrow> string" where
  "string_of_nat n =
     (if n < 10 then [''0123456789'' ! n]
      else string_of_nat (n div 10) @ [''0123456789'' ! (n mod 10)])"

declare string_of_nat.simps [simp del]

definition index_props :: "'a list \<Rightarrow> (string \<times> 'a) list" where
  "index_props xs = zip (map string_of_nat [0..<length xs]) xs"

text \<open>
  A property key is an array index when it is the decimal writing, without sign or
  leading zero, of an integer below \<open>2\<^sup>3\<^sup>2 - 1\<close>.
\<close>

definition is_digit :: "char \<Rightarrow> bool" where
  "is_digit c = (48 \<le> (of_char c :: nat) \<and> (of_char c :: nat) \<le> 57)"

definition nat_of_string :: "string \<Rightarrow> nat" where
  "nat_of_string s = foldl (\<lambda>n c. 10 * n + (of_char c - 48)) 0 s"

definition is_array_index :: "string \<Rightarrow> bool" where
  "is_array_index s =
     (if s \<noteq> [] \<and> list_all is_digit s
      then string_of_nat (nat_of_string s) = s \<and> nat_of_string s < 4294967295
      else False)"

text \<open>
  The order in which an object reports its own keys: the array indices first, in
  ascending numeric order, then the other keys in the order of their creation.
\<close>

definition key_order :: "string list \<Rightarrow> string list" where
  "key_order ks =
     sort_key nat_of_string (filter is_array_index ks) @
     filter (\<lambda>k. \<not> is_array_index k) ks"

text \<open>
  \<^verbatim>\<open>Object.keys\<close>: the own enumerable keys of a value. Arrays and strings own their
  indices; numbers, booleans and natives own nothing enumerable.
\<close>

fun object_keys :: "'n jsval \<Rightarrow> js_error + string list" where
  "object_keys JUndefined = Inl (TypeError NullishToObject)"
| "object_keys JNull = Inl (TypeError NullishToObject)"
| "object_keys (JBool b) = Inr []"
| "object_keys (JNum n) = Inr []"
| "object_keys (JStr s) = Inr (map string_of_nat [0..<length s])"
| "object_keys (JArr xs) = Inr (map string_of_nat [0..<length xs])"
| "object_keys (JObj ps) = Inr (key_order (map fst ps))"
| "object_keys (JNative k) = Inr []"

text \<open>
  A property read \<^verbatim>\<open>v.k\<close> or \<^verbatim>\<open>v[k]\<close>. Reading from \<^verbatim>\<open>null\<close> or \<^verbatim>\<open>undefined\<close> throws. A plain
  object answers with its own property, else with the inherited member of
  \<^verbatim>\<open>Object.prototype\<close>, else with \<^verbatim>\<open>undefined\<close>. For arrays, strings, numbers, booleans and
  natives only the own indices are modelled: the names the program reads from such values
  (\<^verbatim>\<open>ip_address\<close>, \<^verbatim>\<open>data\<close>, the pass-through fields, \<^verbatim>\<open>errors\<close>, \<^verbatim>\<open>0\<close>, \<^verbatim>\<open>error\<close>, \<^verbatim>\<open>name\<close>) are
  members of none of their prototypes.
\<close>

fun get_prop :: "'n jsval \<Rightarrow> string \<Rightarrow> js_error + 'n jsval" where
  "get_prop JUndefined k = Inl (TypeError NullishRead)"
| "get_prop JNull k = Inl (TypeError NullishRead)"
| "get_prop (JObj ps) k =
     (case map_of ps k of
        Some v \<Rightarrow> Inr v
      | None \<Rightarrow> Inr (if k \<in> set object_prototype_keys then JNative k else JUndefined))"
| "get_prop (JArr xs) k =
     (case map_of (index_props xs) k of Some v \<Rightarrow> Inr v | None \<Rightarrow> Inr JUndefined)"
| "get_prop (JStr s) k =
     (case map_of (index_props (map (\<lambda>c. JStr [c]) s)) k of
        Some v \<Rightarrow> Inr v
      | None \<Rightarrow> Inr JUndefined)"
| "get_prop (JBool b) k = Inr JUndefined"
| "get_prop (JNum n) k = Inr JUndefined"
| "get_prop (JNative f) k = Inr JUndefined"

text \<open>
  The operator \<^verbatim>\<open>k in v\<close>: a TypeError unless \<open>v\<close> is an object; own and inherited
  properties both count. The program applies it to the payload with the one key
  \<^verbatim>\<open>source_url\<close>, which no prototype has.
\<close>

fun js_in :: "string \<Rightarrow> 'n jsval \<Rightarrow> js_error + bool" where
  "js_in k (JObj ps) = Inr (k \<in> set (map fst ps) \<or> k \<in> set object_prototype_keys)"
| "js_in k (JArr xs) = Inr (k \<in> set (map fst (index_props xs)))"
| "js_in k (JNative f) = Inr (k \<in> set object_prototype_keys)"
| "js_in k v = Inl (TypeError InOperand)"

text \<open>
  The assignment \<^verbatim>\<open>o[k] = v\<close> on a plain object: an existing property keeps its place and
  takes the new value, a new one is created after the others. The
  program assigns only \<^verbatim>\<open>source_name\<close>, and only to a payload that passed the \<^verbatim>\<open>in\<close> test
  for \<^verbatim>\<open>source_url\<close>, hence to a plain object; other values are returned as they are.
\<close>

fun update_prop :: "string \<Rightarrow> 'v \<Rightarrow> (string \<times> 'v) list \<Rightarrow> (string \<times> 'v) list" where
  "update_prop k v [] = [(k, v)]"
| "update_prop k v (p # ps) = (if fst p = k then (k, v) # ps else p # update_prop k v ps)"

fun set_prop :: "'n jsval \<Rightarrow> string \<Rightarrow> 'n jsval \<Rightarrow> 'n jsval" where
  "set_prop (JObj ps) k v = JObj (update_prop k v ps)"
| "set_prop obj k v = obj"

section \<open>Collaborators and the state of the process\<close>

text \<open>The result of \<^verbatim>\<open>geoip.lookup\<close>, when it is not \<^verbatim>\<open>null\<close>: the fields the program reads.\<close>

record 'n geo =
  country :: string
  region :: string
  ll :: "'n \<times> 'n"

text \<open>
  An entry of the country table \<^verbatim>\<open>data/iso3166-1.json\<close>. The table is not among the sources;
  it is taken as a parameter: a partial map from country code to entry, the entry's
  \<^verbatim>\<open>name\<close> being present or not.
\<close>

record iso_entry =
  entry_name :: "string option"

text \<open>
  Everything the program calls but does not define is a parameter:
  \<^item> \<open>json_parse\<close>: \<^verbatim>\<open>JSON.parse\<close> of the message bytes read as UTF-8; \<open>None\<close> is the SyntaxError;
  \<^item> \<open>number_string\<close>: the string conversion of a number;
  \<^item> \<open>native_string\<close>: the string conversion of the named member of \<^verbatim>\<open>Object.prototype\<close>;
  \<^item> \<open>geoip_lookup\<close>: \<^verbatim>\<open>geoip.lookup\<close>; \<open>None\<close> is its \<^verbatim>\<open>null\<close>;
  \<^item> \<open>iso3166\<close>: the country table;
  \<^item> \<open>axios_get i url\<close>: how the \<open>i\<close>-th request of the process (counting from 0) settles:
    \<open>Some body\<close> when the promise resolves, \<open>body\<close> being \<^verbatim>\<open>res.data\<close>; \<open>None\<close> when it
    rejects (network error, status outside 2xx);
  \<^item> \<open>bigquery_insert i row\<close>: how the \<open>i\<close>-th submission settles: \<open>None\<close> when it resolves,
    \<open>Some err\<close> when it rejects with the value \<open>err\<close>.
  A request or a submission that never settles is outside the model.
\<close>

record 'n env =
  json_parse :: "string \<Rightarrow> 'n jsval option"
  number_string :: "'n \<Rightarrow> string"
  native_string :: "string \<Rightarrow> string"
  geoip_lookup :: "'n jsval \<Rightarrow> 'n geo option"
  iso3166 :: "string \<Rightarrow> iso_entry option"
  axios_get :: "nat \<Rightarrow> 'n jsval \<Rightarrow> 'n jsval option"
  bigquery_insert :: "nat \<Rightarrow> 'n jsval \<Rightarrow> 'n jsval option"

text \<open>A message of the subscription (\<^verbatim>\<open>PubSubMessage\<close>): its id and its bytes.\<close>

record message =
  message_id :: string
  message_data :: string

text \<open>
  The state a call can change: the module-level \<^verbatim>\<open>_sourceCache\<close> (its own properties), and
  the effects on the outside, each as a log: the arguments of the calls of \<^verbatim>\<open>axios.get\<close>,
  the rows submitted to the sink, the values written by \<^verbatim>\<open>console.log\<close>, and the ids of the
  messages whose \<^verbatim>\<open>ack()\<close> ran.
\<close>

record 'n world =
  sourceCache :: "string \<Rightarrow> 'n jsval option"
  requests :: "'n jsval list"
  inserted :: "'n jsval list"
  console :: "'n jsval list"
  acked :: "string list"

section \<open>String conversion\<close>

text \<open>\<^verbatim>\<open>Array.prototype.join\<close> with the separator \<^verbatim>\<open>,\<close>, over elements already converted.\<close>

fun join :: "(js_error + string) list \<Rightarrow> js_error + string" where
  "join [] = Inr []"
| "join [r] = r"
| "join (r # rs) =
     (case r of
        Inl e \<Rightarrow> Inl e
      | Inr s \<Rightarrow> (case join rs of Inl e \<Rightarrow> Inl e | Inr t \<Rightarrow> Inr (s @ '','' @ t)))"

text \<open>
  \<^verbatim>\<open>String(v)\<close>, which is also the conversion of \<open>v\<close> to a property key. An array joins its
  elements, \<^verbatim>\<open>null\<close> and \<^verbatim>\<open>undefined\<close> elements as the empty string. A plain object is
  converted by its \<^verbatim>\<open>toString\<close>: the inherited one answers \<^verbatim>\<open>[object Object]\<close>; an own
  property of that name hides it, and since no value that comes out of JSON is callable,
  the conversion then falls through \<^verbatim>\<open>valueOf\<close> (inherited: returns the object; own: not
  callable) and throws a TypeError.
\<close>

fun to_string :: "'n env \<Rightarrow> 'n jsval \<Rightarrow> js_error + string" where
  "to_string env JUndefined = Inr ''undefined''"
| "to_string env JNull = Inr ''null''"
| "to_string env (JBool b) = Inr (if b then ''true'' else ''false'')"
| "to_string env (JNum n) = Inr (number_string env n)"
| "to_string env (JStr s) = Inr s"
| "to_string env (JArr xs) =
     join (map (\<lambda>x. if x = JUndefined \<or> x = JNull then Inr [] else to_string env x) xs)"
| "to_string env (JObj ps) =
     (if ''toString'' \<in> set (map fst ps) then Inl (TypeError NoPrimitive)
      else Inr ''[object Object]'')"
| "to_string env (JNative k) = Inr (native_string env k)"

section \<open>resolveFontSource\<close>

text \<open>
  Lines 154 to 167. The test \<^verbatim>\<open>sourceUrl in _sourceCache\<close> converts the argument to a
  property key and is true of the cache's own properties and of the names the cache
  inherits. On a miss the request is issued; when it resolves, \<^verbatim>\<open>res.data.name\<close> is stored
  and returned whatever it is; an exception inside the \<^verbatim>\<open>try\<close> block (a rejected request, a
  \<^verbatim>\<open>null\<close> or \<^verbatim>\<open>undefined\<close> body) is caught and \<^verbatim>\<open>null\<close> is returned.
\<close>

definition resolveFontSource ::
  "'n env \<Rightarrow> 'n jsval \<Rightarrow> 'n world \<Rightarrow> (js_error + 'n jsval) \<times> 'n world" where
  "resolveFontSource env sourceUrl w =
     (case to_string env sourceUrl of
        Inl e \<Rightarrow> (Inl e, w)
      | Inr key \<Rightarrow>
          (case sourceCache w key of
             Some v \<Rightarrow> (Inr v, w)
           | None \<Rightarrow>
               if key \<in> set object_prototype_keys then (Inr (JNative key), w)
               else
                 (let w1 = w\<lparr>requests := requests w @ [sourceUrl]\<rparr> in
                  case axios_get env (length (requests w)) sourceUrl of
                    None \<Rightarrow> (Inr JNull, w1)
                  | Some body \<Rightarrow>
                      (case get_prop body ''name'' of
                         Inl e \<Rightarrow> (Inr JNull, w1)
                       | Inr nm \<Rightarrow>
                           (Inr nm, w1\<lparr>sourceCache := (sourceCache w1)(key \<mapsto> nm)\<rparr>)))))"

section \<open>processMessage\<close>

text \<open>
  Lines 105 to 107, ``Resolve font source name'': applied to \<^verbatim>\<open>data.data\<close>, returns the
  payload as the later statements find it.
\<close>

definition resolve_source_name ::
  "'n env \<Rightarrow> 'n jsval \<Rightarrow> 'n world \<Rightarrow> (js_error + 'n jsval) \<times> 'n world" where
  "resolve_source_name env payload w =
     (if payload = JNull then (Inr payload, w)
      else
        (case js_in ''source_url'' payload of
           Inl e \<Rightarrow> (Inl e, w)
         | Inr False \<Rightarrow> (Inr payload, w)
         | Inr True \<Rightarrow>
             (case get_prop payload ''source_url'' of
                Inl e \<Rightarrow> (Inl e, w)
              | Inr url \<Rightarrow>
                  (case resolveFontSource env url w of
                     (Inl e, w1) \<Rightarrow> (Inl e, w1)
                   | (Inr nm, w1) \<Rightarrow> (Inr (set_prop payload ''source_name'' nm), w1)))))"

text \<open>
  Lines 110 to 116, ``Flatten event data into an array of keys and values''. An entry is
  the object \<^verbatim>\<open>{key, value}\<close> of the interface \<^verbatim>\<open>EventData\<close>.
\<close>

definition event_data_entry :: "'n env \<Rightarrow> 'n jsval \<Rightarrow> string \<Rightarrow> js_error + 'n jsval" where
  "event_data_entry env payload key =
     and_then (get_prop payload key) (\<lambda>v.
       if v = JNull then Inr (JObj [(''key'', JStr key), (''value'', JNull)])
       else and_then (to_string env v) (\<lambda>s.
         Inr (JObj [(''key'', JStr key), (''value'', JStr s)])))"

definition flatten_event_data :: "'n env \<Rightarrow> 'n jsval \<Rightarrow> js_error + 'n jsval list" where
  "flatten_event_data env payload =
     (if payload = JNull then Inr []
      else and_then (object_keys payload) (map_result (event_data_entry env payload)))"

text \<open>Lines 119 to 134, ``Craft processed data'': the object literal, property by property.\<close>

definition craft_processed_data ::
  "'n env \<Rightarrow> 'n jsval \<Rightarrow> 'n geo option \<Rightarrow> 'n jsval list \<Rightarrow> js_error + 'n jsval" where
  "craft_processed_data env data geo eventData =
     and_then (get_prop data ''server_timestamp'') (\<lambda>server_timestamp.
     and_then (get_prop data ''timestamp'') (\<lambda>timestamp.
     (case geo of
        None \<Rightarrow> Inl (TypeError NullishRead)
      | Some g \<Rightarrow>
          (case iso3166 env (country g) of
             None \<Rightarrow> Inl (TypeError NullishRead)
           | Some entry \<Rightarrow>
               and_then (get_prop data ''status_code'') (\<lambda>status_code.
               and_then (get_prop data ''event_type'') (\<lambda>event_type.
               and_then (get_prop data ''execution_time'') (\<lambda>execution_time.
               and_then (get_prop data ''fonty_version'') (\<lambda>fonty_version.
               and_then (get_prop data ''os_family'') (\<lambda>os_family.
               and_then (get_prop data ''os_version'') (\<lambda>os_version.
               and_then (get_prop data ''python_version'') (\<lambda>python_version.
                 Inr (JObj
                   [(''server_timestamp'', server_timestamp),
                    (''timestamp'', timestamp),
                    (''geo_country_code'', JStr (country g)),
                    (''geo_country'',
                       (case entry_name entry of
                          None \<Rightarrow> JNull
                        | Some s \<Rightarrow> if s = [] then JNull else JStr s)),
                    (''geo_region'', JStr (region g)),
                    (''geo_coords'',
                       JStr (number_string env (fst (ll g)) @ '', '' @
                             number_string env (snd (ll g)))),
                    (''status_code'', status_code),
                    (''event_type'', event_type),
                    (''execution_time'', execution_time),
                    (''fonty_version'', fonty_version),
                    (''os_family'', os_family),
                    (''os_version'', os_version),
                    (''python_version'', python_version),
                    (''event_data'', JArr eventData)]))))))))))))"

text \<open>
  Lines 102 to 134: from the parsed event to the processed one. The payload is read from
  \<^verbatim>\<open>data.data\<close> again at each use; the assignment of \<^verbatim>\<open>source_name\<close> changes that object in
  place and nothing else of \<^verbatim>\<open>data\<close>.
\<close>

definition transform ::
  "'n env \<Rightarrow> 'n jsval \<Rightarrow> 'n world \<Rightarrow> (js_error + 'n jsval) \<times> 'n world" where
  "transform env data w =
     (case get_prop data ''ip_address'' of
        Inl e \<Rightarrow> (Inl e, w)
      | Inr ip \<Rightarrow>
          (let geo = geoip_lookup env ip in
           case get_prop data ''data'' of
             Inl e \<Rightarrow> (Inl e, w)
           | Inr payload \<Rightarrow>
               (case resolve_source_name env payload w of
                  (Inl e, w1) \<Rightarrow> (Inl e, w1)
                | (Inr payload1, w1) \<Rightarrow>
                    (case flatten_event_data env payload1 of
                       Inl e \<Rightarrow> (Inl e, w1)
                     | Inr eventData \<Rightarrow> (craft_processed_data env data geo eventData, w1)))))"

text \<open>
  Lines 137 to 144, ``Store data into BigQuery'': one submission of the one row; a
  rejection is caught, and the handler reads \<^verbatim>\<open>err.errors[0].error\<close> and logs it. An
  exception raised by the handler itself is not caught by anything.
\<close>

definition store_data :: "'n env \<Rightarrow> 'n jsval \<Rightarrow> 'n world \<Rightarrow> (js_error + unit) \<times> 'n world" where
  "store_data env processed w =
     (let w1 = w\<lparr>inserted := inserted w @ [processed]\<rparr> in
      case bigquery_insert env (length (inserted w)) processed of
        None \<Rightarrow> (Inr (), w1)
      | Some err \<Rightarrow>
          (case and_then (get_prop err ''errors'') (\<lambda>errors.
                and_then (get_prop errors ''0'') (\<lambda>first. get_prop first ''error'')) of
             Inl e \<Rightarrow> (Inl e, w1)
           | Inr x \<Rightarrow> (Inr (), w1\<lparr>console := console w1 @ [x]\<rparr>)))"

text \<open>
  Lines 98 to 148. \<open>Inl e\<close> is the rejection of the promise that the \<^verbatim>\<open>async\<close> function
  returns; \<open>Inr ()\<close> is its fulfilment, reached only through \<^verbatim>\<open>message.ack()\<close>.
\<close>

definition processMessage ::
  "'n env \<Rightarrow> message \<Rightarrow> 'n world \<Rightarrow> (js_error + unit) \<times> 'n world" where
  "processMessage env msg w =
     (case json_parse env (message_data msg) of
        None \<Rightarrow> (Inl SyntaxError, w)
      | Some data \<Rightarrow>
          (case transform env data w of
             (Inl e, w1) \<Rightarrow> (Inl e, w1)
           | (Inr processed, w1) \<Rightarrow>
               (case store_data env processed w1 of
                  (Inl e, w2) \<Rightarrow> (Inl e, w2)
                | (Inr u, w2) \<Rightarrow> (Inr (), w2\<lparr>acked := acked w2 @ [message_id msg]\<rparr>))))"

section \<open>Predicates of the statements\<close>

text \<open>
  The interface \<^verbatim>\<open>IncomingTelemetryEvent\<close>: an object whose ten typed fields hold values of
  the declared types; \<^verbatim>\<open>data\<close> is declared \<^verbatim>\<open>any\<close>.
\<close>

definition is_number :: "'n jsval \<Rightarrow> bool" where
  "is_number v = (case v of JNum n \<Rightarrow> True | _ \<Rightarrow> False)"

definition is_string :: "'n jsval \<Rightarrow> bool" where
  "is_string v = (case v of JStr s \<Rightarrow> True | _ \<Rightarrow> False)"

definition incoming_telemetry_event :: "'n jsval \<Rightarrow> bool" where
  "incoming_telemetry_event data =
     (case data of
        JObj ps \<Rightarrow>
          list_all (\<lambda>k. case map_of ps k of Some v \<Rightarrow> is_string v | None \<Rightarrow> False)
            [''ip_address'', ''timestamp'', ''event_type'', ''fonty_version'', ''os_family'',
             ''os_version'', ''python_version''] \<and>
          list_all (\<lambda>k. case map_of ps k of Some v \<Rightarrow> is_number v | None \<Rightarrow> False)
            [''server_timestamp'', ''status_code'', ''execution_time'']
      | _ \<Rightarrow> False)"

text \<open>A scalar is a value without parts; a flat entry is \<^verbatim>\<open>{key, value}\<close> with a string key and
  a value that is a string or \<^verbatim>\<open>null\<close>.\<close>

definition is_scalar :: "'n jsval \<Rightarrow> bool" where
  "is_scalar v = (case v of JArr xs \<Rightarrow> False | JObj ps \<Rightarrow> False | JNative k \<Rightarrow> False | _ \<Rightarrow> True)"

definition flat_entry :: "'n jsval \<Rightarrow> bool" where
  "flat_entry e =
     (case e of
        JObj [(k1, JStr k), (k2, v)] \<Rightarrow>
          k1 = ''key'' \<and> k2 = ''value'' \<and> (v = JNull \<or> is_string v)
      | _ \<Rightarrow> False)"

definition flat_processed :: "'n jsval \<Rightarrow> bool" where
  "flat_processed p =
     (case p of
        JObj ps \<Rightarrow>
          ''ip_address'' \<notin> set (map fst ps) \<and>
          list_all (\<lambda>(k, v). if k = ''event_data''
                             then (case v of JArr es \<Rightarrow> list_all flat_entry es | _ \<Rightarrow> False)
                             else is_scalar v) ps
      | _ \<Rightarrow> False)"

text \<open>The string conversion of a value that has one, and whether it has one.\<close>

definition converts :: "'n env \<Rightarrow> 'n jsval \<Rightarrow> bool" where
  "converts env v = (case to_string env v of Inl e \<Rightarrow> False | Inr s \<Rightarrow> True)"

definition string_value :: "'n env \<Rightarrow> 'n jsval \<Rightarrow> string" where
  "string_value env v = (case to_string env v of Inl e \<Rightarrow> [] | Inr s \<Rightarrow> s)"

text \<open>
  A value that is, or as an array holds at some depth of arrays, a plain object with an
  own property \<^verbatim>\<open>toString\<close>.
\<close>

fun own_toString :: "'n jsval \<Rightarrow> bool" where
  "own_toString (JObj ps) = (''toString'' \<in> set (map fst ps))"
| "own_toString (JArr xs) = list_ex own_toString xs"
| "own_toString v = False"

text \<open>The entry that flattening owes to the property \<open>(k, v)\<close> of the payload.\<close>

definition entry_of :: "'n env \<Rightarrow> string \<times> 'n jsval \<Rightarrow> 'n jsval" where
  "entry_of env p =
     JObj [(''key'', JStr (fst p)),
           (''value'', if snd p = JNull then JNull else JStr (string_value env (snd p)))]"

section \<open>A concrete process\<close>

text \<open>
  The statements below are exercised on a concrete process. Its numbers are written by
  their decimal strings, so that the string conversion of a number is the identity.
\<close>

type_synonym number = string

text \<open>The state of a process that has just started: \<^verbatim>\<open>_sourceCache\<close> is \<^verbatim>\<open>{}\<close>.\<close>

definition start :: "'n world" where
  "start = \<lparr>sourceCache = Map.empty, requests = [], inserted = [], console = [], acked = []\<rparr>"

text \<open>A telemetry event and its JSON text; the payload is the last member, when present.\<close>

definition sample_event :: "string \<Rightarrow> (string \<times> number jsval) list \<Rightarrow> number jsval" where
  "sample_event ip payload =
     JObj ([(''ip_address'', JStr ip),
            (''server_timestamp'', JNum ''1526000000''),
            (''timestamp'', JStr ''2018-05-11T01:00:00''),
            (''status_code'', JNum ''0''),
            (''event_type'', JStr ''install''),
            (''execution_time'', JNum ''12''),
            (''fonty_version'', JStr ''0.1.0''),
            (''os_family'', JStr ''Darwin''),
            (''os_version'', JStr ''17.5.0''),
            (''python_version'', JStr ''3.6.5'')] @ payload)"

definition sample_text :: "string \<Rightarrow> string \<Rightarrow> string" where
  \<open>sample_text ip payload =
     ''{"ip_address":"'' @ ip @ ''","server_timestamp":1526000000,'' @
     ''"timestamp":"2018-05-11T01:00:00","status_code":0,"event_type":"install",'' @
     ''"execution_time":12,"fonty_version":"0.1.0","os_family":"Darwin",'' @
     ''"os_version":"17.5.0","python_version":"3.6.5"'' @ payload @ ''}''\<close>

text \<open>The JSON texts the concrete process receives, each with the value it denotes.\<close>

definition sample_messages :: "(string \<times> number jsval) list" where
  \<open>sample_messages =
     [(sample_text ''8.8.8.8'' '',"data":{"a":1,"source_url":"http://x/y"}'',
       sample_event ''8.8.8.8''
         [(''data'', JObj [(''a'', JNum ''1''), (''source_url'', JStr ''http://x/y'')])]),
      (sample_text ''8.8.8.8'' '',"data":null'',
       sample_event ''8.8.8.8'' [(''data'', JNull)]),
      (sample_text ''8.8.8.8'' [],
       sample_event ''8.8.8.8'' []),
      (sample_text ''10.0.0.1'' '',"data":null'',
       sample_event ''10.0.0.1'' [(''data'', JNull)]),
      (sample_text ''193.0.0.1'' '',"data":null'',
       sample_event ''193.0.0.1'' [(''data'', JNull)])]\<close>

text \<open>
  The collaborators of the concrete process. The geo database knows two addresses, the
  second under the code \<^verbatim>\<open>XK\<close>, which the country table does not have. The attribution
  service answers \<^verbatim>\<open>{"name":"Foo Foundry"}\<close> at one URL; at a second it answers \<^verbatim>\<open>{}\<close> to the
  first request of the process and \<^verbatim>\<open>{"name":"Late"}\<close> afterwards; every other request is
  rejected. The sink accepts every row.
\<close>

definition sample_env :: "number env" where
  "sample_env =
     \<lparr>json_parse = map_of sample_messages,
      number_string = (\<lambda>n. n),
      native_string = (\<lambda>k. if k = ''__proto__'' then ''[object Object]''
                           else ''function '' @ (if k = ''constructor'' then ''Object'' else k) @
                                ''() { [native code] }''),
      geoip_lookup = (\<lambda>ip.
        if ip = JStr ''8.8.8.8''
        then Some \<lparr>country = ''US'', region = ''CA'', ll = (''37.386'', ''-122.0838'')\<rparr>
        else if ip = JStr ''193.0.0.1''
        then Some \<lparr>country = ''XK'', region = [], ll = (''42.6'', ''21.16'')\<rparr>
        else None),
      iso3166 = (\<lambda>code.
        if code = ''US'' then Some \<lparr>entry_name = Some ''United States of America''\<rparr>
        else None),
      axios_get = (\<lambda>i url.
        if url = JStr ''http://x/y'' then Some (JObj [(''name'', JStr ''Foo Foundry'')])
        else if url = JStr ''http://x/z''
        then Some (JObj (if i = 0 then [] else [(''name'', JStr ''Late'')]))
        else None),
      bigquery_insert = (\<lambda>i row. None)\<rparr>"

text \<open>The same process with a sink that rejects every submission with an \<^verbatim>\<open>Error\<close> that has
  a message and nothing else, as a failed connection produces.\<close>

definition rejecting_env :: "number env" where
  "rejecting_env =
     sample_env\<lparr>bigquery_insert := (\<lambda>i row. Some (JObj [(''message'', JStr ''socket hang up'')]))\<rparr>"

text \<open>A message that carries the sample text for the given address and payload.\<close>

definition sample_message :: "string \<Rightarrow> string \<Rightarrow> message" where
  "sample_message ip payload = \<lparr>message_id = ''m1'', message_data = sample_text ip payload\<rparr>"

text \<open>The state of the process after one request, to \<open>url\<close>, whose answer \<open>nm\<close> was cached.\<close>

definition fetched :: "string \<Rightarrow> number jsval \<Rightarrow> number world" where
  "fetched url nm = start\<lparr>requests := [JStr url], sourceCache := [url \<mapsto> nm]\<rparr>"

text \<open>The processed event of the sample event at \<^verbatim>\<open>8.8.8.8\<close>, with the given entries.\<close>

definition sample_processed :: "number jsval list \<Rightarrow> number jsval" where
  "sample_processed entries =
     JObj [(''server_timestamp'', JNum ''1526000000''),
           (''timestamp'', JStr ''2018-05-11T01:00:00''),
           (''geo_country_code'', JStr ''US''),
           (''geo_country'', JStr ''United States of America''),
           (''geo_region'', JStr ''CA''),
           (''geo_coords'', JStr ''37.386, -122.0838''),
           (''status_code'', JNum ''0''),
           (''event_type'', JStr ''install''),
           (''execution_time'', JNum ''12''),
           (''fonty_version'', JStr ''0.1.0''),
           (''os_family'', JStr ''Darwin''),
           (''os_version'', JStr ''17.5.0''),
           (''python_version'', JStr ''3.6.5''),
           (''event_data'', JArr entries)]"

lemmas sample_defs =
  sample_env_def rejecting_env_def sample_messages_def sample_text_def sample_event_def
  sample_message_def sample_processed_def fetched_def start_def

lemmas step_defs =
  processMessage_def transform_def resolve_source_name_def resolveFontSource_def
  flatten_event_data_def and_then_def event_data_entry_def
  craft_processed_data_def store_data_def object_prototype_keys_def
  key_order_def is_array_index_def is_digit_def

section \<open>Properties of the value operations\<close>

lemma get_prop_throws:
  "get_prop v k = Inl e \<Longrightarrow> (v = JUndefined \<or> v = JNull) \<and> e = TypeError NullishRead"
  by (cases v) (auto split: option.splits)

lemma get_prop_returns: "get_prop v k = Inr x \<Longrightarrow> \<exists>y. get_prop v k' = Inr y"
  by (cases v) (auto split: option.splits)

lemma string_of_nat_digit: "n < 10 \<Longrightarrow> string_of_nat n = [''0123456789'' ! n]"
  by (simp add: string_of_nat.simps)

lemma string_of_nat_more:
  "\<not> n < 10 \<Longrightarrow> string_of_nat n = string_of_nat (n div 10) @ [''0123456789'' ! (n mod 10)]"
  by (subst string_of_nat.simps) simp

lemma key_order_snoc: "\<not> is_array_index k \<Longrightarrow> key_order (ks @ [k]) = key_order ks @ [k]"
  by (simp add: key_order_def)

lemma set_key_order: "set (key_order ks) = set ks"
  by (auto simp: key_order_def)

lemma length_key_order: "length (key_order ks) = length ks"
  by (simp add: key_order_def sum_length_filter_compl)

text \<open>Where no key is an array index, the keys are reported in the order of creation.\<close>

lemma key_order_plain:
  assumes "list_all (\<lambda>k. \<not> is_array_index k) ks"
  shows "key_order ks = ks"
proof -
  from assms have "filter is_array_index ks = []"
    and "filter (\<lambda>k. \<not> is_array_index k) ks = ks"
    by (simp_all add: list_all_iff filter_empty_conv filter_id_conv)
  then show ?thesis by (simp add: key_order_def)
qed

lemma map_result_length: "map_result f xs = Inr ys \<Longrightarrow> length ys = length xs"
  by (induction xs arbitrary: ys) (auto split: sum.splits)

lemma map_result_all:
  "map_result f xs = Inr ys \<Longrightarrow> (\<And>x y. f x = Inr y \<Longrightarrow> P y) \<Longrightarrow> list_all P ys"
  by (induction xs arbitrary: ys) (auto split: sum.splits)

lemma map_result_cong:
  "(\<And>x. x \<in> set xs \<Longrightarrow> f x = g x) \<Longrightarrow> map_result f xs = map_result g xs"
  by (induction xs) (auto split: sum.splits)

lemma map_result_snoc:
  "map_result f (xs @ [x]) =
     and_then (map_result f xs) (\<lambda>ys. and_then (f x) (\<lambda>y. Inr (ys @ [y])))"
  by (induction xs) (auto simp: and_then_def split: sum.splits)

text \<open>The values without a string conversion are those that hold an own \<^verbatim>\<open>toString\<close>.\<close>

lemma join_throws: "isl (join rs) \<longleftrightarrow> list_ex isl rs"
  by (induction rs rule: join.induct) (auto split: sum.splits)

lemma converts_iff: "converts env v \<longleftrightarrow> \<not> own_toString v"
proof -
  have "isl (to_string env v) \<longleftrightarrow> own_toString v"
  proof (induction v)
    case (JArr xs)
    have "isl (to_string env (JArr xs)) \<longleftrightarrow>
          (\<exists>x\<in>set xs. isl (if x = JUndefined \<or> x = JNull then Inr [] else to_string env x))"
      by (auto simp: join_throws list_ex_iff)
    also have "\<dots> \<longleftrightarrow> (\<exists>x\<in>set xs. own_toString x)"
    proof (rule bex_cong [OF refl])
      fix x assume "x \<in> set xs"
      with JArr show "isl (if x = JUndefined \<or> x = JNull then Inr [] else to_string env x) \<longleftrightarrow>
                      own_toString x"
        by auto
    qed
    finally show ?case by (simp add: list_ex_iff)
  qed simp_all
  then show ?thesis
    by (cases "to_string env v") (auto simp: converts_def)
qed

lemma update_prop_new: "k \<notin> set (map fst ps) \<Longrightarrow> update_prop k v ps = ps @ [(k, v)]"
  by (induction ps) auto

lemma update_prop_keys: "k \<in> set (map fst ps) \<Longrightarrow> map fst (update_prop k v ps) = map fst ps"
  by (induction ps) auto

lemma update_prop_same: "map_of (update_prop k v ps) k = Some v"
  by (induction ps) auto

section \<open>Properties of the steps\<close>

subsection \<open>The cache\<close>

text \<open>A URL found in the cache is answered from it: no request, no change of state.\<close>

lemma resolveFontSource_hit:
  assumes "to_string env url = Inr key" and "sourceCache w key = Some v"
  shows "resolveFontSource env url w = (Inr v, w)"
  using assms by (simp add: resolveFontSource_def)

text \<open>A rejected request gives \<^verbatim>\<open>null\<close> and leaves the cache as it was.\<close>

lemma resolveFontSource_rejected:
  assumes "to_string env url = Inr key" and "sourceCache w key = None"
    and "key \<notin> set object_prototype_keys"
    and "axios_get env (length (requests w)) url = None"
  shows "resolveFontSource env url w = (Inr JNull, w\<lparr>requests := requests w @ [url]\<rparr>)"
  using assms by (simp add: resolveFontSource_def)

text \<open>A request that resolves with a body is cached under the URL, whatever \<^verbatim>\<open>name\<close> is.\<close>

lemma resolveFontSource_resolved:
  assumes "to_string env url = Inr key" and "sourceCache w key = None"
    and "key \<notin> set object_prototype_keys"
    and "axios_get env (length (requests w)) url = Some body"
    and "get_prop body ''name'' = Inr nm"
  shows "resolveFontSource env url w =
           (Inr nm, w\<lparr>requests := requests w @ [url],
                       sourceCache := (sourceCache w)(key \<mapsto> nm)\<rparr>)"
  using assms by (simp add: resolveFontSource_def)

text \<open>The resolution that follows it returns the cached value without a request.\<close>

lemma resolveFontSource_again:
  assumes "to_string env url = Inr key" and "sourceCache w key = None"
    and "key \<notin> set object_prototype_keys"
    and "axios_get env (length (requests w)) url = Some body"
    and "get_prop body ''name'' = Inr nm"
    and "resolveFontSource env url w = (r, w1)"
  shows "resolveFontSource env url w1 = (Inr nm, w1)"
proof -
  from assms have "sourceCache w1 key = Some nm"
    by (auto simp: resolveFontSource_resolved)
  with assms(1) show ?thesis
    by (rule resolveFontSource_hit)
qed

text \<open>Once the argument has a property key, nothing the call does can throw.\<close>

lemma resolveFontSource_returns:
  assumes "to_string env url = Inr key"
  shows "\<exists>v w1. resolveFontSource env url w = (Inr v, w1)"
  using assms
  by (auto simp: resolveFontSource_def Let_def split: option.splits sum.splits)

lemma resolveFontSource_effects:
  assumes "resolveFontSource env url w = (r, w1)"
  shows "inserted w1 = inserted w \<and> console w1 = console w \<and> acked w1 = acked w"
  using assms
  by (auto simp: resolveFontSource_def Let_def split: option.splits sum.splits if_splits)

subsection \<open>Flattening\<close>

lemma flatten_event_data_flat:
  assumes "flatten_event_data env payload = Inr es"
  shows "list_all flat_entry es"
proof (cases "payload = JNull")
  case True
  with assms show ?thesis by (simp add: flatten_event_data_def)
next
  case False
  with assms obtain ks where "map_result (event_data_entry env payload) ks = Inr es"
    by (auto simp: flatten_event_data_def and_then_def split: sum.splits)
  moreover have "flat_entry e" if "event_data_entry env payload k = Inr e" for k e
    using that
    by (auto simp: event_data_entry_def and_then_def flat_entry_def is_string_def
             split: sum.splits if_splits)
  ultimately show ?thesis by (rule map_result_all)
qed

lemma event_data_entry_prefix:
  assumes "k \<in> set (map fst ps)"
  shows "event_data_entry env (JObj (ps @ qs)) k = event_data_entry env (JObj ps) k"
proof -
  from assms obtain v where "map_of ps k = Some v"
    by (metis map_of_eq_None_iff not_Some_eq set_map)
  then show ?thesis
    by (simp add: event_data_entry_def map_add_def)
qed

lemma event_data_entry_last:
  assumes "k \<notin> set (map fst ps)"
  shows "event_data_entry env (JObj (ps @ [(k, v)])) k = event_data_entry env (JObj [(k, v)]) k"
proof -
  from assms have "map_of ps k = None"
    by (simp add: map_of_eq_None_iff)
  then show ?thesis
    by (simp add: event_data_entry_def map_add_def)
qed

text \<open>A property added at the end adds its entry at the end, and changes no other entry.\<close>

lemma flatten_event_data_snoc:
  assumes "k \<notin> set (map fst ps)" and "\<not> is_array_index k"
  shows "flatten_event_data env (JObj (ps @ [(k, v)])) =
           and_then (flatten_event_data env (JObj ps)) (\<lambda>es.
           and_then (event_data_entry env (JObj [(k, v)]) k) (\<lambda>e. Inr (es @ [e])))"
proof -
  have "map_result (event_data_entry env (JObj (ps @ [(k, v)]))) (key_order (map fst ps)) =
        map_result (event_data_entry env (JObj ps)) (key_order (map fst ps))"
    by (rule map_result_cong) (simp add: event_data_entry_prefix set_key_order)
  then show ?thesis
    using event_data_entry_last [OF assms(1), of env v] assms(2)
    by (simp add: flatten_event_data_def key_order_snoc map_result_snoc and_then_def)
qed

text \<open>Flattening reads the value of each key and converts it.\<close>

lemma entries_of_values:
  assumes "map_result (get_prop payload) ks = Inr vs"
    and "list_all (\<lambda>v. v = JNull \<or> converts env v) vs"
  shows "map_result (event_data_entry env payload) ks = Inr (map (entry_of env) (zip ks vs))"
  using assms
proof (induction ks arbitrary: vs)
  case Nil
  then show ?case by simp
next
  case (Cons k ks)
  then obtain v vs' where vs: "vs = v # vs'" and v: "get_prop payload k = Inr v"
    and rest: "map_result (get_prop payload) ks = Inr vs'"
    by (auto split: sum.splits)
  from Cons.prems(2) vs have c: "v = JNull \<or> converts env v"
    and cs: "list_all (\<lambda>v. v = JNull \<or> converts env v) vs'"
    by simp_all
  from v c have "event_data_entry env payload k = Inr (entry_of env (k, v))"
    by (auto simp: event_data_entry_def and_then_def entry_of_def converts_def string_value_def
             split: sum.splits)
  with Cons.IH [OF rest cs] vs show ?case by simp
qed

subsection \<open>Effects of the steps\<close>

lemma transform_effects:
  assumes "transform env data w = (r, w1)"
  shows "inserted w1 = inserted w \<and> console w1 = console w \<and> acked w1 = acked w"
proof -
  have "inserted w1 = inserted w \<and> console w1 = console w \<and> acked w1 = acked w"
    if "resolve_source_name env payload w = (r', w1)" for payload r'
    using that
    by (auto simp: resolve_source_name_def split: if_splits sum.splits bool.splits prod.splits
             dest: resolveFontSource_effects)
  with assms show ?thesis
    by (auto simp: transform_def Let_def split: sum.splits prod.splits)
qed

text \<open>
  The example of the specification: the address resolves, the payload has a
  \<^verbatim>\<open>source_url\<close>, the service answers with a name, the sink accepts. One request, one row
  with three entries, one acknowledgment.
\<close>

lemma processMessage_example:
  \<open>processMessage sample_env
     (sample_message ''8.8.8.8'' '',"data":{"a":1,"source_url":"http://x/y"}'') start =
     (Inr (),
      start\<lparr>requests := [JStr ''http://x/y''],
            sourceCache := [''http://x/y'' \<mapsto> JStr ''Foo Foundry''],
            inserted := [sample_processed
              [JObj [(''key'', JStr ''a''), (''value'', JStr ''1'')],
               JObj [(''key'', JStr ''source_url''), (''value'', JStr ''http://x/y'')],
               JObj [(''key'', JStr ''source_name''), (''value'', JStr ''Foo Foundry'')]]],
            acked := [''m1'']\<rparr>)\<close>
  by (simp add: sample_defs step_defs)

text \<open>A payload that is \<^verbatim>\<open>undefined\<close>, a number, a string or a boolean stops the message at
  the \<^verbatim>\<open>in\<close> test.\<close>

lemma primitive_payload_throws:
  assumes "json_parse env (message_data msg) = Some data"
    and "get_prop data ''data'' = Inr payload"
    and "payload = JUndefined \<or> is_number payload \<or> is_string payload \<or>
         (\<exists>b. payload = JBool b)"
  shows "processMessage env msg w = (Inl (TypeError InOperand), w)"
proof -
  from assms(2) obtain ip where "get_prop data ''ip_address'' = Inr ip"
    using get_prop_returns by blast
  moreover from assms(3)
  have "payload \<noteq> JNull \<and> js_in ''source_url'' payload = Inl (TypeError InOperand)"
    by (cases payload) (auto simp: is_number_def is_string_def)
  ultimately have "transform env data w = (Inl (TypeError InOperand), w)"
    using assms(2) by (simp add: transform_def resolve_source_name_def)
  with assms(1) show ?thesis
    by (simp add: processMessage_def)
qed

text \<open>Without a geo result no processed event is crafted.\<close>

lemma craft_processed_data_unknown_geo:
  "\<exists>e. craft_processed_data env data None eventData = Inl e"
  by (auto simp: craft_processed_data_def and_then_def split: sum.splits)

text \<open>Nor is one crafted when the country table has no entry for the country code.\<close>

lemma craft_processed_data_unknown_country:
  assumes "iso3166 env (country g) = None"
  shows "\<exists>e. craft_processed_data env data (Some g) eventData = Inl e"
  using assms by (auto simp: craft_processed_data_def and_then_def split: sum.splits)

text \<open>A message whose address the geo database does not know is never acknowledged and
  never reaches the sink.\<close>

lemma unknown_geo_not_acknowledged:
  assumes "json_parse env (message_data msg) = Some data"
    and "get_prop data ''ip_address'' = Inr ip"
    and "geoip_lookup env ip = None"
  shows "\<exists>e w1. processMessage env msg w = (Inl e, w1) \<and>
                acked w1 = acked w \<and> inserted w1 = inserted w"
proof -
  obtain r w1 where t: "transform env data w = (r, w1)"
    by (cases "transform env data w")
  have "\<exists>e. r = Inl e"
  proof (cases r)
    case (Inl e)
    then show ?thesis by simp
  next
    case (Inr p)
    with t assms(2,3) obtain es where "craft_processed_data env data None es = Inr p"
      by (auto simp: transform_def Let_def split: sum.splits prod.splits)
    with craft_processed_data_unknown_geo [of env data es] show ?thesis
      by auto
  qed
  then obtain e where "r = Inl e" ..
  with t assms(1) have "processMessage env msg w = (Inl e, w1)"
    by (simp add: processMessage_def)
  with transform_effects [OF t] show ?thesis by simp
qed

text \<open>A rejection whose value has \<^verbatim>\<open>errors[0]\<close> is logged, and the call returns.\<close>

lemma store_data_logged:
  assumes "bigquery_insert env (length (inserted w)) processed = Some err"
    and "get_prop err ''errors'' = Inr errors"
    and "get_prop errors ''0'' = Inr first"
    and "get_prop first ''error'' = Inr x"
  shows "store_data env processed w =
           (Inr (), w\<lparr>inserted := inserted w @ [processed], console := console w @ [x]\<rparr>)"
  using assms by (simp add: store_data_def and_then_def)

text \<open>A rejection whose value has no \<^verbatim>\<open>errors\<close> makes the handler itself throw.\<close>

lemma store_data_handler_throws:
  assumes "bigquery_insert env (length (inserted w)) processed = Some err"
    and "get_prop err ''errors'' = Inr JUndefined"
  shows "store_data env processed w =
           (Inl (TypeError NullishRead), w\<lparr>inserted := inserted w @ [processed]\<rparr>)"
  using assms by (simp add: store_data_def and_then_def)

text \<open>When the event is transformed and the store step returns, the message is
  acknowledged, once.\<close>

lemma processMessage_acknowledges:
  assumes "json_parse env (message_data msg) = Some data"
    and "transform env data w = (Inr processed, w1)"
    and "store_data env processed w1 = (Inr (), w2)"
  shows "processMessage env msg w = (Inr (), w2\<lparr>acked := acked w2 @ [message_id msg]\<rparr>) \<and>
         acked w2 = acked w"
proof -
  from assms(3) have "acked w2 = acked w1"
    by (auto simp: store_data_def Let_def split: option.splits sum.splits)
  with assms show ?thesis
    by (simp add: processMessage_def transform_effects)
qed

subsection \<open>The steps in sequence\<close>

text \<open>
  The transformation flattens the payload that the resolution step returns, and the
  processed event carries exactly the flattened entries.
\<close>

lemma transform_steps:
  assumes "get_prop data ''ip_address'' = Inr ip"
    and "get_prop data ''data'' = Inr payload"
    and "resolve_source_name env payload w = (Inr payload1, w1)"
  shows "transform env data w =
           (and_then (flatten_event_data env payload1)
              (craft_processed_data env data (geoip_lookup env ip)), w1)"
  using assms by (simp add: transform_def and_then_def split: sum.splits)

lemma craft_processed_data_entries:
  assumes "craft_processed_data env data geo eventData = Inr processed"
  shows "get_prop processed ''event_data'' = Inr (JArr eventData)"
  using assms
  by (auto simp: craft_processed_data_def and_then_def split: sum.splits option.splits)

lemma resolve_source_name_assigns:
  assumes "map_of ps ''source_url'' = Some url"
    and "resolveFontSource env url w = (Inr nm, w1)"
  shows "resolve_source_name env (JObj ps) w =
           (Inr (JObj (update_prop ''source_name'' nm ps)), w1)"
proof -
  from assms(1) have "''source_url'' \<in> set (map fst ps)"
    by (metis map_of_eq_None_iff option.distinct(1) set_map)
  with assms show ?thesis
    by (simp add: resolve_source_name_def)
qed

lemma resolve_source_name_skips:
  assumes "payload = JNull \<or> js_in ''source_url'' payload = Inr False"
  shows "resolve_source_name env payload w = (Inr payload, w)"
  using assms by (auto simp: resolve_source_name_def)

lemma flatten_event_data_length:
  assumes "flatten_event_data env (JObj ps) = Inr es"
  shows "length es = length ps"
  using assms
  by (auto simp: flatten_event_data_def and_then_def length_key_order dest: map_result_length)

section \<open>The claims\<close>

subsection \<open>Geo data that cannot be resolved\<close>

text \<open>
  C1. The claim: an event whose address the geo database does not know is still
  transformed, with all four geo fields \<^verbatim>\<open>null\<close>. The code: \<^verbatim>\<open>geoip.lookup\<close> returns \<^verbatim>\<open>null\<close>
  for the private address \<^verbatim>\<open>10.0.0.1\<close>, line 122 reads \<^verbatim>\<open>geo.country\<close> from it, and
  \<open>processMessage\<close> ends with that TypeError: no processed event, no submission, no
  acknowledgment.
\<close>

theorem unknown_geo_throws:
  \<open>processMessage sample_env (sample_message ''10.0.0.1'' '',"data":null'') start =
     (Inl (TypeError NullishRead), start)\<close>
  by (simp add: sample_defs step_defs)

subsection \<open>Rejection by the sink\<close>

text \<open>
  C2. The claim: whenever the sink rejects the submission, the error is logged and the
  message is acknowledged exactly once. The code: the sink rejects with an \<^verbatim>\<open>Error\<close> that
  has no \<^verbatim>\<open>errors\<close> array; the handler of line 143 reads \<^verbatim>\<open>err.errors[0]\<close> and throws a
  TypeError of its own. The row was submitted once, nothing was logged, and the message
  is not acknowledged.
\<close>

theorem rejected_submission_not_acknowledged:
  \<open>processMessage rejecting_env (sample_message ''8.8.8.8'' '',"data":null'') start =
     (Inl (TypeError NullishRead), start\<lparr>inserted := [sample_processed []]\<rparr>)\<close>
  by (simp add: sample_defs step_defs)

subsection \<open>A country code without a table entry\<close>

text \<open>
  C3. The claim: a resolved geo result whose country code has no entry in the country
  table gives \<^verbatim>\<open>geo_country = null\<close> and no error. The code: the geo database answers with
  the code \<^verbatim>\<open>XK\<close>, the table has no such entry, \<^verbatim>\<open>iso3166[geo.country]\<close> is \<^verbatim>\<open>undefined\<close>, and
  line 123 reads \<^verbatim>\<open>.name\<close> from it before \<^verbatim>\<open>|| null\<close> can apply: \<open>processMessage\<close> ends with
  that TypeError and the message is not acknowledged.
\<close>

theorem unknown_country_throws:
  \<open>processMessage sample_env (sample_message ''193.0.0.1'' '',"data":null'') start =
     (Inl (TypeError NullishRead), start)\<close>
  by (simp add: sample_defs step_defs)

subsection \<open>A response body without a name\<close>

text \<open>
  C4. The claim: a fetch failure of any kind, a response body without a \<^verbatim>\<open>name\<close> field
  included, makes \<open>resolveFontSource\<close> return \<^verbatim>\<open>null\<close>. The code: the service answers \<^verbatim>\<open>{}\<close>;
  \<^verbatim>\<open>res.data.name\<close> is \<^verbatim>\<open>undefined\<close>, nothing is thrown inside the \<^verbatim>\<open>try\<close> block, and the
  call returns \<^verbatim>\<open>undefined\<close>, having stored it in the cache under the URL.
\<close>

theorem nameless_body_returns_undefined:
  "resolveFontSource sample_env (JStr ''http://x/z'') start =
     (Inr JUndefined, fetched ''http://x/z'' JUndefined)"
  by (simp add: sample_defs step_defs)

text \<open>
  C5. The claim: a resolution that fails is not cached, and the next resolution of the
  same URL issues a fresh request. The code: the first request is answered \<^verbatim>\<open>{}\<close> and
  \<^verbatim>\<open>undefined\<close> is cached; the second resolution returns \<^verbatim>\<open>undefined\<close> from the cache. One
  request was issued in all, although a second one would have been answered with a name.
\<close>

theorem nameless_body_cached:
  "(case resolveFontSource sample_env (JStr ''http://x/z'') start of
      (r1, w1) \<Rightarrow>
        (case resolveFontSource sample_env (JStr ''http://x/z'') w1 of
           (r2, w2) \<Rightarrow> (r1, r2, requests w2, axios_get sample_env 1 (JStr ''http://x/z'')))) =
     (Inr JUndefined, Inr JUndefined, [JStr ''http://x/z''],
      Some (JObj [(''name'', JStr ''Late'')]))"
  by (simp add: sample_defs step_defs)

subsection \<open>Flattening\<close>

text \<open>
  C6, as stated, fails on two payloads. The keys of \<^verbatim>\<open>{"b":1,"1":2}\<close> are
  inserted in the order \<^verbatim>\<open>b\<close>, \<^verbatim>\<open>1\<close>, and its entries come in the order \<^verbatim>\<open>1\<close>, \<^verbatim>\<open>b\<close>: an array
  index goes before the other keys. The payload \<^verbatim>\<open>{"a":{"toString":null}}\<close> has one key and
  flattens to no entry: the value is an object whose own \<^verbatim>\<open>toString\<close> hides the inherited
  one, and \<^verbatim>\<open>String\<close> throws on it.
\<close>

theorem flatten_event_data_counterexample:
  "flatten_event_data sample_env (JObj [(''b'', JNum ''1''), (''1'', JNum ''2'')]) =
     Inr [JObj [(''key'', JStr ''1''), (''value'', JStr ''2'')],
          JObj [(''key'', JStr ''b''), (''value'', JStr ''1'')]] \<and>
   flatten_event_data sample_env (JObj [(''a'', JObj [(''toString'', JNull)])]) =
     Inl (TypeError NoPrimitive)"
  by (simp add: flatten_event_data_def and_then_def event_data_entry_def key_order_def
        is_array_index_def is_digit_def nat_of_string_def string_of_nat_digit sample_env_def)

text \<open>
  C6, amended. A \<^verbatim>\<open>null\<close> payload flattens to the empty sequence. Let \<open>ks\<close> be the keys of a
  payload as \<^verbatim>\<open>Object.keys\<close> lists them and \<open>vs\<close> their values; if every value is \<^verbatim>\<open>null\<close> or
  has a string conversion, the payload flattens to exactly one entry per key, in the order
  of \<open>ks\<close>: the entry's key is the key, its value is \<^verbatim>\<open>null\<close> when the key's value is \<^verbatim>\<open>null\<close>
  and the string conversion of that value otherwise. For an object none of whose keys is
  an array index, the order of \<open>ks\<close> is the order in which the keys were inserted.
\<close>

theorem flatten_event_data_contract:
  "flatten_event_data env JNull = Inr [] \<and>
   (object_keys payload = Inr ks \<longrightarrow> map_result (get_prop payload) ks = Inr vs \<longrightarrow>
    list_all (\<lambda>v. v = JNull \<or> converts env v) vs \<longrightarrow>
      flatten_event_data env payload = Inr (map (entry_of env) (zip ks vs)) \<and>
      length (map (entry_of env) (zip ks vs)) = length ks) \<and>
   (list_all (\<lambda>k. \<not> is_array_index k) (map fst ps) \<longrightarrow>
      object_keys (JObj ps) = Inr (map fst ps))"
proof (intro conjI impI)
  show "flatten_event_data env JNull = Inr []"
    by (simp add: flatten_event_data_def)
next
  assume ks: "object_keys payload = Inr ks"
    and vs: "map_result (get_prop payload) ks = Inr vs"
    and c: "list_all (\<lambda>v. v = JNull \<or> converts env v) vs"
  from ks have "payload \<noteq> JNull" by auto
  with ks entries_of_values [OF vs c]
  show "flatten_event_data env payload = Inr (map (entry_of env) (zip ks vs))"
    by (simp add: flatten_event_data_def and_then_def)
  from vs show "length (map (entry_of env) (zip ks vs)) = length ks"
    by (simp add: map_result_length)
next
  assume "list_all (\<lambda>k. \<not> is_array_index k) (map fst ps)"
  then show "object_keys (JObj ps) = Inr (map fst ps)"
    by (simp add: key_order_plain)
qed

text \<open>C6, amended, on a payload of three keys: a number, \<^verbatim>\<open>null\<close> and a nested array.\<close>

theorem flatten_event_data_contract_witness:
  "object_keys (JObj [(''a'', JNum ''1''), (''b'', JNull),
                      (''c'', JArr [JBool True, JNull :: number jsval])]) =
     Inr [''a'', ''b'', ''c''] \<and>
   map_result
     (get_prop (JObj [(''a'', JNum ''1''), (''b'', JNull), (''c'', JArr [JBool True, JNull])]))
     [''a'', ''b'', ''c''] =
     Inr [JNum ''1'', JNull, JArr [JBool True, JNull :: number jsval]] \<and>
   list_all (\<lambda>v. v = JNull \<or> converts sample_env v)
     [JNum ''1'', JNull, JArr [JBool True, JNull]] \<and>
   list_all (\<lambda>k. \<not> is_array_index k)
     (map fst [(''a'', JNum ''1''), (''b'', JNull),
               (''c'', JArr [JBool True, JNull :: number jsval])]) \<and>
   flatten_event_data sample_env
     (JObj [(''a'', JNum ''1''), (''b'', JNull), (''c'', JArr [JBool True, JNull])]) =
     Inr [JObj [(''key'', JStr ''a''), (''value'', JStr ''1'')],
          JObj [(''key'', JStr ''b''), (''value'', JNull)],
          JObj [(''key'', JStr ''c''), (''value'', JStr ''true,'')]]"
proof -
  have plain: "list_all (\<lambda>k. \<not> is_array_index k)
     (map fst [(''a'', JNum ''1''), (''b'', JNull),
               (''c'', JArr [JBool True, JNull :: number jsval])])"
    by (simp add: is_array_index_def is_digit_def)
  have vs: "map_result
     (get_prop (JObj [(''a'', JNum ''1''), (''b'', JNull), (''c'', JArr [JBool True, JNull])]))
     [''a'', ''b'', ''c''] =
     Inr [JNum ''1'', JNull, JArr [JBool True, JNull :: number jsval]]"
    by simp
  have c: "list_all (\<lambda>v. v = JNull \<or> converts sample_env v)
     [JNum ''1'', JNull, JArr [JBool True, JNull]]"
    by (simp add: converts_def)
  from flatten_event_data_contract
      [of sample_env
          "JObj [(''a'', JNum ''1''), (''b'', JNull), (''c'', JArr [JBool True, JNull])]"
          "[''a'', ''b'', ''c'']" "[JNum ''1'', JNull, JArr [JBool True, JNull]]"
          "[(''a'', JNum ''1''), (''b'', JNull), (''c'', JArr [JBool True, JNull])]"]
    plain vs c
  show ?thesis
    by (simp add: entry_of_def string_value_def sample_env_def)
qed

subsection \<open>Injection of the source name\<close>

text \<open>
  C7, as stated, fails: a payload that has a \<^verbatim>\<open>source_url\<close> does not always gain an entry.
  The payload \<^verbatim>\<open>{"source_url":"http://x/y","source_name":"mine"}\<close> has two keys; the
  assignment replaces the value of the \<^verbatim>\<open>source_name\<close> that was there, the payload flattens
  to two entries, and the processed event of the transformation carries those two.
\<close>

theorem source_name_counterexample:
  "resolve_source_name sample_env
     (JObj [(''source_url'', JStr ''http://x/y''), (''source_name'', JStr ''mine'')]) start =
     (Inr (JObj [(''source_url'', JStr ''http://x/y''), (''source_name'', JStr ''Foo Foundry'')]),
      fetched ''http://x/y'' (JStr ''Foo Foundry'')) \<and>
   flatten_event_data sample_env
     (JObj [(''source_url'', JStr ''http://x/y''), (''source_name'', JStr ''Foo Foundry'')]) =
     Inr [JObj [(''key'', JStr ''source_url''), (''value'', JStr ''http://x/y'')],
          JObj [(''key'', JStr ''source_name''), (''value'', JStr ''Foo Foundry'')]] \<and>
   transform sample_env
     (sample_event ''8.8.8.8''
        [(''data'', JObj [(''source_url'', JStr ''http://x/y''), (''source_name'', JStr ''mine'')])])
     start =
     (Inr (sample_processed
        [JObj [(''key'', JStr ''source_url''), (''value'', JStr ''http://x/y'')],
         JObj [(''key'', JStr ''source_name''), (''value'', JStr ''Foo Foundry'')]]),
      fetched ''http://x/y'' (JStr ''Foo Foundry''))"
  by (simp add: sample_defs step_defs)

text \<open>
  C7, amended. Let the event's payload be an object with a \<^verbatim>\<open>source_url\<close>, and let the
  resolution of that URL return \<open>nm\<close>. If the payload has no \<^verbatim>\<open>source_name\<close>, the
  transformation crafts the processed event from the entries of the payload as it was,
  followed by the entry of \<^verbatim>\<open>source_name = nm\<close>: whenever it returns a processed event, that
  event's \<^verbatim>\<open>event_data\<close> is those entries and that one more. If the payload has a
  \<^verbatim>\<open>source_name\<close>, its value is replaced by \<open>nm\<close>, the keys stay as they were, and
  \<^verbatim>\<open>event_data\<close> has one entry per key of the payload. For a payload that is \<^verbatim>\<open>null\<close> or has no
  \<^verbatim>\<open>source_url\<close>, the transformation leaves the state as it was (no resolution, no request)
  and \<^verbatim>\<open>event_data\<close> is the entries of the payload itself.
\<close>

theorem source_name_injection:
  assumes "get_prop data ''ip_address'' = Inr ip"
    and "get_prop data ''data'' = Inr payload"
  shows
    "(payload = JObj ps \<longrightarrow> map_of ps ''source_url'' = Some url \<longrightarrow>
      resolveFontSource env url w = (Inr nm, w1) \<longrightarrow> ''source_name'' \<notin> set (map fst ps) \<longrightarrow>
        transform env data w =
          (and_then
             (and_then (flatten_event_data env (JObj ps)) (\<lambda>es.
              and_then (event_data_entry env (JObj [(''source_name'', nm)]) ''source_name'')
                (\<lambda>e. Inr (es @ [e]))))
             (craft_processed_data env data (geoip_lookup env ip)), w1) \<and>
        (transform env data w = (Inr processed, w2) \<longrightarrow>
           (\<exists>es e. flatten_event_data env (JObj ps) = Inr es \<and>
                   event_data_entry env (JObj [(''source_name'', nm)]) ''source_name'' = Inr e \<and>
                   get_prop processed ''event_data'' = Inr (JArr (es @ [e]))))) \<and>
     (payload = JObj ps \<longrightarrow> map_of ps ''source_url'' = Some url \<longrightarrow>
      resolveFontSource env url w = (Inr nm, w1) \<longrightarrow> ''source_name'' \<in> set (map fst ps) \<longrightarrow>
        transform env data w =
          (and_then (flatten_event_data env (JObj (update_prop ''source_name'' nm ps)))
             (craft_processed_data env data (geoip_lookup env ip)), w1) \<and>
        map fst (update_prop ''source_name'' nm ps) = map fst ps \<and>
        map_of (update_prop ''source_name'' nm ps) ''source_name'' = Some nm \<and>
        (transform env data w = (Inr processed, w2) \<longrightarrow>
           (\<exists>es. flatten_event_data env (JObj (update_prop ''source_name'' nm ps)) = Inr es \<and>
                 length es = length ps \<and>
                 get_prop processed ''event_data'' = Inr (JArr es)))) \<and>
     (payload = JNull \<or> js_in ''source_url'' payload = Inr False \<longrightarrow>
        transform env data w =
          (and_then (flatten_event_data env payload)
             (craft_processed_data env data (geoip_lookup env ip)), w) \<and>
        (transform env data w = (Inr processed, w2) \<longrightarrow>
           (\<exists>es. flatten_event_data env payload = Inr es \<and>
                 get_prop processed ''event_data'' = Inr (JArr es))))"
proof -
  have out: "\<exists>es. r = Inr es \<and> get_prop processed ''event_data'' = Inr (JArr es)"
    if "transform env data w = (and_then r (craft_processed_data env data geo), w')"
      and "transform env data w = (Inr processed, w2)" for r geo w'
  proof (cases r)
    case (Inl e)
    with that show ?thesis by (simp add: and_then_def)
  next
    case (Inr es)
    with that have "craft_processed_data env data geo es = Inr processed"
      by (simp add: and_then_def)
    with Inr show ?thesis by (simp add: craft_processed_data_entries)
  qed
  have new: "transform env data w =
      (and_then
         (and_then (flatten_event_data env (JObj ps)) (\<lambda>es.
          and_then (event_data_entry env (JObj [(''source_name'', nm)]) ''source_name'')
            (\<lambda>e. Inr (es @ [e]))))
         (craft_processed_data env data (geoip_lookup env ip)), w1)"
    if p: "payload = JObj ps" and u: "map_of ps ''source_url'' = Some url"
      and r: "resolveFontSource env url w = (Inr nm, w1)"
      and n: "''source_name'' \<notin> set (map fst ps)"
  proof -
    have plain: "\<not> is_array_index ''source_name''"
      by (simp add: is_array_index_def is_digit_def)
    from resolve_source_name_assigns [OF u r] n
    have "resolve_source_name env (JObj ps) w = (Inr (JObj (ps @ [(''source_name'', nm)])), w1)"
      by (simp add: update_prop_new)
    with assms p have "transform env data w =
        (and_then (flatten_event_data env (JObj (ps @ [(''source_name'', nm)])))
           (craft_processed_data env data (geoip_lookup env ip)), w1)"
      by (simp add: transform_steps)
    then show ?thesis
      by (simp add: flatten_event_data_snoc [OF n plain])
  qed
  have new_out: "\<exists>es e. flatten_event_data env (JObj ps) = Inr es \<and>
      event_data_entry env (JObj [(''source_name'', nm)]) ''source_name'' = Inr e \<and>
      get_prop processed ''event_data'' = Inr (JArr (es @ [e]))"
    if "payload = JObj ps" "map_of ps ''source_url'' = Some url"
      "resolveFontSource env url w = (Inr nm, w1)" "''source_name'' \<notin> set (map fst ps)"
      "transform env data w = (Inr processed, w2)"
  proof -
    from out [OF new [OF that(1-4)] that(5)] obtain ed where
      ed: "and_then (flatten_event_data env (JObj ps)) (\<lambda>es.
             and_then (event_data_entry env (JObj [(''source_name'', nm)]) ''source_name'')
               (\<lambda>e. Inr (es @ [e]))) = Inr ed"
      and p: "get_prop processed ''event_data'' = Inr (JArr ed)"
      by blast
    from ed obtain es e where "flatten_event_data env (JObj ps) = Inr es"
      "event_data_entry env (JObj [(''source_name'', nm)]) ''source_name'' = Inr e"
      "ed = es @ [e]"
      by (auto simp: and_then_def split: sum.splits)
    with p show ?thesis by blast
  qed
  have old: "transform env data w =
      (and_then (flatten_event_data env (JObj (update_prop ''source_name'' nm ps)))
         (craft_processed_data env data (geoip_lookup env ip)), w1)"
    if "payload = JObj ps" "map_of ps ''source_url'' = Some url"
      "resolveFontSource env url w = (Inr nm, w1)"
    using assms that resolve_source_name_assigns [OF that(2,3)]
    by (simp add: transform_steps)
  have old_out: "\<exists>es. flatten_event_data env (JObj (update_prop ''source_name'' nm ps)) = Inr es \<and>
      length es = length ps \<and> get_prop processed ''event_data'' = Inr (JArr es)"
    if "payload = JObj ps" "map_of ps ''source_url'' = Some url"
      "resolveFontSource env url w = (Inr nm, w1)" "''source_name'' \<in> set (map fst ps)"
      "transform env data w = (Inr processed, w2)"
  proof -
    from out [OF old [OF that(1-3)] that(5)] obtain es where
      es: "flatten_event_data env (JObj (update_prop ''source_name'' nm ps)) = Inr es"
      and p: "get_prop processed ''event_data'' = Inr (JArr es)"
      by blast
    from flatten_event_data_length [OF es] update_prop_keys [OF that(4), of nm]
    have "length es = length ps"
      by (metis length_map)
    with es p show ?thesis by blast
  qed
  have skip: "transform env data w =
      (and_then (flatten_event_data env payload)
         (craft_processed_data env data (geoip_lookup env ip)), w)"
    if "payload = JNull \<or> js_in ''source_url'' payload = Inr False"
    using assms resolve_source_name_skips [OF that]
    by (simp add: transform_steps)
  show ?thesis
    using new new_out old old_out skip out [OF skip]
    by (simp add: update_prop_keys update_prop_same)
qed

text \<open>
  C7, amended, on three events: one whose payload has a \<^verbatim>\<open>source_url\<close> and no
  \<^verbatim>\<open>source_name\<close>, one whose payload has both, one whose payload has neither.
\<close>

theorem source_name_injection_witness:
  "get_prop (sample_event ''8.8.8.8''
       [(''data'', JObj [(''a'', JNum ''1''), (''source_url'', JStr ''http://x/y'')])])
     ''ip_address'' = Inr (JStr ''8.8.8.8'') \<and>
   get_prop (sample_event ''8.8.8.8''
       [(''data'', JObj [(''a'', JNum ''1''), (''source_url'', JStr ''http://x/y'')])])
     ''data'' = Inr (JObj [(''a'', JNum ''1''), (''source_url'', JStr ''http://x/y'')]) \<and>
   map_of [(''a'', JNum ''1''), (''source_url'', JStr ''http://x/y'')] ''source_url'' =
     Some (JStr ''http://x/y'' :: number jsval) \<and>
   resolveFontSource sample_env (JStr ''http://x/y'') start =
     (Inr (JStr ''Foo Foundry''), fetched ''http://x/y'' (JStr ''Foo Foundry'')) \<and>
   ''source_name'' \<notin>
     set (map fst [(''a'', JNum ''1''), (''source_url'', JStr ''http://x/y'' :: number jsval)]) \<and>
   flatten_event_data sample_env
     (JObj [(''a'', JNum ''1''), (''source_url'', JStr ''http://x/y'')]) =
     Inr [JObj [(''key'', JStr ''a''), (''value'', JStr ''1'')],
          JObj [(''key'', JStr ''source_url''), (''value'', JStr ''http://x/y'')]] \<and>
   transform sample_env
     (sample_event ''8.8.8.8''
        [(''data'', JObj [(''a'', JNum ''1''), (''source_url'', JStr ''http://x/y'')])]) start =
     (Inr (sample_processed
        [JObj [(''key'', JStr ''a''), (''value'', JStr ''1'')],
         JObj [(''key'', JStr ''source_url''), (''value'', JStr ''http://x/y'')],
         JObj [(''key'', JStr ''source_name''), (''value'', JStr ''Foo Foundry'')]]),
      fetched ''http://x/y'' (JStr ''Foo Foundry'')) \<and>
   get_prop (sample_processed
        [JObj [(''key'', JStr ''a''), (''value'', JStr ''1'')],
         JObj [(''key'', JStr ''source_url''), (''value'', JStr ''http://x/y'')],
         JObj [(''key'', JStr ''source_name''), (''value'', JStr ''Foo Foundry'')]])
     ''event_data'' =
     Inr (JArr
        [JObj [(''key'', JStr ''a''), (''value'', JStr ''1'')],
         JObj [(''key'', JStr ''source_url''), (''value'', JStr ''http://x/y'')],
         JObj [(''key'', JStr ''source_name''), (''value'', JStr ''Foo Foundry'')]]) \<and>
   get_prop (sample_event ''8.8.8.8''
       [(''data'', JObj [(''source_name'', JStr ''mine''), (''source_url'', JStr ''http://x/y'')])])
     ''data'' = Inr (JObj [(''source_name'', JStr ''mine''), (''source_url'', JStr ''http://x/y'')]) \<and>
   map_of [(''source_name'', JStr ''mine''), (''source_url'', JStr ''http://x/y'')] ''source_url'' =
     Some (JStr ''http://x/y'' :: number jsval) \<and>
   ''source_name'' \<in>
     set (map fst [(''source_name'', JStr ''mine''),
                   (''source_url'', JStr ''http://x/y'' :: number jsval)]) \<and>
   transform sample_env
     (sample_event ''8.8.8.8''
        [(''data'', JObj [(''source_name'', JStr ''mine''), (''source_url'', JStr ''http://x/y'')])])
     start =
     (Inr (sample_processed
        [JObj [(''key'', JStr ''source_name''), (''value'', JStr ''Foo Foundry'')],
         JObj [(''key'', JStr ''source_url''), (''value'', JStr ''http://x/y'')]]),
      fetched ''http://x/y'' (JStr ''Foo Foundry'')) \<and>
   get_prop (sample_event ''8.8.8.8'' [(''data'', JObj [(''a'', JNum ''1'')])]) ''data'' =
     Inr (JObj [(''a'', JNum ''1'')]) \<and>
   js_in ''source_url'' (JObj [(''a'', JNum ''1'')] :: number jsval) = Inr False \<and>
   transform sample_env (sample_event ''8.8.8.8'' [(''data'', JObj [(''a'', JNum ''1'')])]) start =
     (Inr (sample_processed [JObj [(''key'', JStr ''a''), (''value'', JStr ''1'')]]), start)"
proof -
  have ip: "get_prop (sample_event ''8.8.8.8'' [(''data'', p)]) ''ip_address'' =
      Inr (JStr ''8.8.8.8'')" for p
    by (simp add: sample_event_def)
  have payload: "get_prop (sample_event ''8.8.8.8'' [(''data'', p)]) ''data'' = Inr p" for p
    by (simp add: sample_event_def)
  have r: "resolveFontSource sample_env (JStr ''http://x/y'') start =
      (Inr (JStr ''Foo Foundry''), fetched ''http://x/y'' (JStr ''Foo Foundry''))"
    by (simp add: sample_defs resolveFontSource_def object_prototype_keys_def)
  have n: "js_in ''source_url'' (JObj [(''a'', JNum ''1'')] :: number jsval) = Inr False"
    by (simp add: object_prototype_keys_def)
  have f: "flatten_event_data sample_env
      (JObj [(''a'', JNum ''1''), (''source_url'', JStr ''http://x/y'')]) =
      Inr [JObj [(''key'', JStr ''a''), (''value'', JStr ''1'')],
           JObj [(''key'', JStr ''source_url''), (''value'', JStr ''http://x/y'')]]"
    by (simp add: flatten_event_data_def and_then_def event_data_entry_def sample_env_def
          key_order_def is_array_index_def is_digit_def)
  have f2: "flatten_event_data sample_env
      (JObj [(''source_name'', JStr ''Foo Foundry''), (''source_url'', JStr ''http://x/y'')]) =
      Inr [JObj [(''key'', JStr ''source_name''), (''value'', JStr ''Foo Foundry'')],
           JObj [(''key'', JStr ''source_url''), (''value'', JStr ''http://x/y'')]]"
    by (simp add: flatten_event_data_def and_then_def event_data_entry_def sample_env_def
          key_order_def is_array_index_def is_digit_def)
  have f3: "flatten_event_data sample_env (JObj [(''a'', JNum ''1'')]) =
      Inr [JObj [(''key'', JStr ''a''), (''value'', JStr ''1'')]]"
    by (simp add: flatten_event_data_def and_then_def event_data_entry_def sample_env_def
          key_order_def is_array_index_def is_digit_def)
  have e: "event_data_entry sample_env
      (JObj [(''source_name'', JStr ''Foo Foundry'')]) ''source_name'' =
      Inr (JObj [(''key'', JStr ''source_name''), (''value'', JStr ''Foo Foundry'')])"
    by (simp add: event_data_entry_def and_then_def)
  have c: "craft_processed_data sample_env (sample_event ''8.8.8.8'' [(''data'', p)])
      (geoip_lookup sample_env (JStr ''8.8.8.8'')) es = Inr (sample_processed es)" for p es
    by (simp add: craft_processed_data_def and_then_def sample_env_def sample_event_def
          sample_processed_def)
  have d: "get_prop (sample_processed es) ''event_data'' = Inr (JArr es)" for es
    by (simp add: sample_processed_def)
  from source_name_injection [OF ip payload,
         where ps = "[(''a'', JNum ''1''), (''source_url'', JStr ''http://x/y'')]"
         and url = "JStr ''http://x/y''" and env = sample_env and w = start
         and nm = "JStr ''Foo Foundry''"
         and ?w1.0 = "fetched ''http://x/y'' (JStr ''Foo Foundry'')"]
    source_name_injection [OF ip payload,
         where ps = "[(''source_name'', JStr ''mine''), (''source_url'', JStr ''http://x/y'')]"
         and url = "JStr ''http://x/y''" and env = sample_env and w = start
         and nm = "JStr ''Foo Foundry''"
         and ?w1.0 = "fetched ''http://x/y'' (JStr ''Foo Foundry'')"]
    source_name_injection [OF ip payload,
         where ps = "[(''a'', JNum ''1'')]" and env = sample_env and w = start]
    ip payload r n f f2 f3 e c d
  show ?thesis
    by (simp add: and_then_def)
qed

subsection \<open>Bytes that are not JSON\<close>

text \<open>
  C8. When the bytes of a message are not parseable as JSON, \<open>processMessage\<close> throws the
  SyntaxError of \<^verbatim>\<open>JSON.parse\<close> and the state is what it was: nothing was requested, nothing
  submitted, and the acknowledgment of the message was not invoked.
\<close>

theorem processMessage_unparseable:
  assumes "json_parse env (message_data msg) = None"
  shows "processMessage env msg w = (Inl SyntaxError, w)"
  using assms by (simp add: processMessage_def)

text \<open>C8, on a message whose text breaks off after the first key.\<close>

theorem processMessage_unparseable_witness:
  \<open>json_parse sample_env
     (message_data \<lparr>message_id = ''m0'', message_data = ''{"ip_address":''\<rparr>) = None \<and>
   processMessage sample_env \<lparr>message_id = ''m0'', message_data = ''{"ip_address":''\<rparr> start =
     (Inl SyntaxError, start)\<close>
  using processMessage_unparseable
    [of sample_env \<open>\<lparr>message_id = ''m0'', message_data = ''{"ip_address":''\<rparr>\<close> start]
  by (simp add: sample_env_def sample_messages_def sample_text_def)

subsection \<open>The processed event is flat\<close>

text \<open>
  C9. Let the parsed event be an \<^verbatim>\<open>IncomingTelemetryEvent\<close>. Every processed event that the
  transformation assembles from it is an object without a property \<^verbatim>\<open>ip_address\<close>; each of
  its properties other than \<^verbatim>\<open>event_data\<close> holds a scalar; \<^verbatim>\<open>event_data\<close> holds an array of
  entries \<^verbatim>\<open>{key, value}\<close> whose key is a string and whose value is a string or \<^verbatim>\<open>null\<close>,
  whatever the payload's values were.
\<close>

theorem processed_event_flat:
  assumes "incoming_telemetry_event data"
    and "transform env data w = (Inr processed, w1)"
  shows "flat_processed processed"
proof -
  from assms(1) obtain ps where data: "data = JObj ps"
    by (cases data) (auto simp: incoming_telemetry_event_def)
  from assms(1) data obtain v1 v2 v3 v4 v5 v6 v7 v8 v9 where fields:
    "map_of ps ''server_timestamp'' = Some v1" "is_number v1"
    "map_of ps ''timestamp'' = Some v2" "is_string v2"
    "map_of ps ''status_code'' = Some v3" "is_number v3"
    "map_of ps ''event_type'' = Some v4" "is_string v4"
    "map_of ps ''execution_time'' = Some v5" "is_number v5"
    "map_of ps ''fonty_version'' = Some v6" "is_string v6"
    "map_of ps ''os_family'' = Some v7" "is_string v7"
    "map_of ps ''os_version'' = Some v8" "is_string v8"
    "map_of ps ''python_version'' = Some v9" "is_string v9"
    by (auto simp: incoming_telemetry_event_def split: option.splits)
  from assms(2) obtain geo es where
    es: "list_all flat_entry es" and
    craft: "craft_processed_data env data geo es = Inr processed"
    by (auto simp: transform_def Let_def split: sum.splits prod.splits
             dest: flatten_event_data_flat)
  have scalar: "is_scalar v" if "is_number v \<or> is_string v" for v :: "'a jsval"
    using that by (cases v) (auto simp: is_scalar_def is_number_def is_string_def)
  have geo: "is_scalar (JStr s)" "is_scalar (JNull :: 'a jsval)" for s
    by (simp_all add: is_scalar_def)
  from fields have "is_scalar v1" "is_scalar v2" "is_scalar v3" "is_scalar v4" "is_scalar v5"
    "is_scalar v6" "is_scalar v7" "is_scalar v8" "is_scalar v9"
    by (simp_all add: scalar)
  with craft fields es geo show ?thesis
    by (auto simp: craft_processed_data_def and_then_def data flat_processed_def
             split: option.splits)
qed

text \<open>
  C9, on the sample event with a payload that holds a nested array and a \<^verbatim>\<open>source_url\<close>.
\<close>

theorem processed_event_flat_witness:
  "incoming_telemetry_event
     (sample_event ''8.8.8.8''
        [(''data'', JObj [(''a'', JArr [JNum ''1'', JObj []]),
                          (''source_url'', JStr ''http://x/y'')])]) \<and>
   transform sample_env
     (sample_event ''8.8.8.8''
        [(''data'', JObj [(''a'', JArr [JNum ''1'', JObj []]),
                          (''source_url'', JStr ''http://x/y'')])])
     start =
     (Inr (sample_processed
        [JObj [(''key'', JStr ''a''), (''value'', JStr ''1,[object Object]'')],
         JObj [(''key'', JStr ''source_url''), (''value'', JStr ''http://x/y'')],
         JObj [(''key'', JStr ''source_name''), (''value'', JStr ''Foo Foundry'')]]),
      fetched ''http://x/y'' (JStr ''Foo Foundry'')) \<and>
   flat_processed (sample_processed
        [JObj [(''key'', JStr ''a''), (''value'', JStr ''1,[object Object]'')],
         JObj [(''key'', JStr ''source_url''), (''value'', JStr ''http://x/y'')],
         JObj [(''key'', JStr ''source_name''), (''value'', JStr ''Foo Foundry'')]])"
proof -
  have typed: "incoming_telemetry_event
     (sample_event ''8.8.8.8''
        [(''data'', JObj [(''a'', JArr [JNum ''1'', JObj []]),
                          (''source_url'', JStr ''http://x/y'')])])"
    by (simp add: incoming_telemetry_event_def sample_event_def is_string_def is_number_def)
  have run: "transform sample_env
     (sample_event ''8.8.8.8''
        [(''data'', JObj [(''a'', JArr [JNum ''1'', JObj []]),
                          (''source_url'', JStr ''http://x/y'')])])
     start =
     (Inr (sample_processed
        [JObj [(''key'', JStr ''a''), (''value'', JStr ''1,[object Object]'')],
         JObj [(''key'', JStr ''source_url''), (''value'', JStr ''http://x/y'')],
         JObj [(''key'', JStr ''source_name''), (''value'', JStr ''Foo Foundry'')]]),
      fetched ''http://x/y'' (JStr ''Foo Foundry''))"
    by (simp add: sample_defs step_defs)
  from typed run processed_event_flat [OF typed run] show ?thesis
    by (intro conjI)
qed

subsection \<open>A payload that is absent\<close>

text \<open>
  C10. Let the bytes of the message parse to \<open>data\<close>. If \<^verbatim>\<open>data.data\<close> is \<^verbatim>\<open>undefined\<close>,
  \<open>processMessage\<close> throws the TypeError of the \<^verbatim>\<open>in\<close> test of line 105 and the state is what
  it was: the message is not acknowledged. If \<^verbatim>\<open>data.data\<close> is \<^verbatim>\<open>null\<close>, nothing is thrown up
  to there: the address is read, no resolution takes place, and the processed event is
  crafted with the empty sequence for \<^verbatim>\<open>event_data\<close>.
\<close>

theorem absent_payload_throws:
  assumes "json_parse env (message_data msg) = Some data"
  shows "(get_prop data ''data'' = Inr JUndefined \<longrightarrow>
            processMessage env msg w = (Inl (TypeError InOperand), w)) \<and>
         (get_prop data ''data'' = Inr JNull \<longrightarrow>
            (\<exists>ip. get_prop data ''ip_address'' = Inr ip \<and>
                  transform env data w =
                    (craft_processed_data env data (geoip_lookup env ip) [], w)))"
proof (intro conjI impI)
  assume absent: "get_prop data ''data'' = Inr JUndefined"
  then obtain ip where "get_prop data ''ip_address'' = Inr ip"
    using get_prop_returns by blast
  with absent have "transform env data w = (Inl (TypeError InOperand), w)"
    by (simp add: transform_def resolve_source_name_def)
  with assms show "processMessage env msg w = (Inl (TypeError InOperand), w)"
    by (simp add: processMessage_def)
next
  assume null: "get_prop data ''data'' = Inr JNull"
  then obtain ip where ip: "get_prop data ''ip_address'' = Inr ip"
    using get_prop_returns by blast
  with null have "transform env data w =
      (craft_processed_data env data (geoip_lookup env ip) [], w)"
    by (simp add: transform_def resolve_source_name_def flatten_event_data_def)
  with ip show "\<exists>ip. get_prop data ''ip_address'' = Inr ip \<and>
      transform env data w = (craft_processed_data env data (geoip_lookup env ip) [], w)"
    by blast
qed

text \<open>C10, on the sample event without a \<^verbatim>\<open>data\<close> member and on the one whose \<^verbatim>\<open>data\<close> is
  \<^verbatim>\<open>null\<close>.\<close>

theorem absent_payload_throws_witness:
  \<open>json_parse sample_env (message_data (sample_message ''8.8.8.8'' [])) =
     Some (sample_event ''8.8.8.8'' []) \<and>
   get_prop (sample_event ''8.8.8.8'' []) ''data'' = Inr JUndefined \<and>
   processMessage sample_env (sample_message ''8.8.8.8'' []) start =
     (Inl (TypeError InOperand), start) \<and>
   json_parse sample_env (message_data (sample_message ''8.8.8.8'' '',"data":null'')) =
     Some (sample_event ''8.8.8.8'' [(''data'', JNull)]) \<and>
   get_prop (sample_event ''8.8.8.8'' [(''data'', JNull)]) ''data'' = Inr JNull \<and>
   transform sample_env (sample_event ''8.8.8.8'' [(''data'', JNull)]) start =
     (Inr (sample_processed []), start)\<close>
proof -
  have p1: \<open>json_parse sample_env (message_data (sample_message ''8.8.8.8'' [])) =
      Some (sample_event ''8.8.8.8'' [])\<close>
    by (simp add: sample_env_def sample_messages_def sample_message_def sample_text_def)
  have p2: \<open>json_parse sample_env (message_data (sample_message ''8.8.8.8'' '',"data":null'')) =
      Some (sample_event ''8.8.8.8'' [(''data'', JNull)])\<close>
    by (simp add: sample_env_def sample_messages_def sample_message_def sample_text_def)
  have g1: "get_prop (sample_event ''8.8.8.8'' []) ''data'' = Inr JUndefined"
    by (simp add: sample_event_def object_prototype_keys_def)
  have g2: "get_prop (sample_event ''8.8.8.8'' [(''data'', JNull)]) ''data'' = Inr JNull"
    by (simp add: sample_event_def)
  have ip: "get_prop (sample_event ''8.8.8.8'' [(''data'', JNull)]) ''ip_address'' =
      Inr (JStr ''8.8.8.8'')"
    by (simp add: sample_event_def)
  have c: "craft_processed_data sample_env (sample_event ''8.8.8.8'' [(''data'', JNull)])
      (geoip_lookup sample_env (JStr ''8.8.8.8'')) [] = Inr (sample_processed [])"
    by (simp add: craft_processed_data_def and_then_def sample_env_def sample_event_def
          sample_processed_def)
  from absent_payload_throws [OF p1, of start] absent_payload_throws [OF p2, of start]
    p1 p2 g1 g2 ip c
  show ?thesis by auto
qed

end
